theory Spec2Isabelle
  imports Complex_Main
begin

section \<open>The per-worker training driver of train_vicap.py\<close>

text \<open>
  The file \<^verbatim>\<open>train_vicap.py\<close> holds one function of interest, \<^verbatim>\<open>main(gpu, config)\<close>,
  run once in every worker process, and its launcher \<^verbatim>\<open>run_main\<close>. The model below follows
  \<^verbatim>\<open>main\<close> line by line. What \<^verbatim>\<open>main\<close> does to the outside world (process group, device,
  training, evaluation, checkpoint files, barrier) is recorded as a trace of events and as
  a map from file names to checkpoint records.
\<close>

subsection \<open>Configuration\<close>

text \<open>The fields of \<^verbatim>\<open>config.exp\<close> and \<^verbatim>\<open>config.optimizer\<close> that \<^verbatim>\<open>main\<close> reads. Python
  integers are unbounded, hence \<^typ>\<open>int\<close>.\<close>

record config =
  exp_rank :: int
  exp_ngpus_per_node :: int
  exp_world_size :: int
  exp_seed :: int
  freezing_xe_epochs :: int
  freezing_sc_epochs :: int
  finetune_xe_epochs :: int
  finetune_sc_epochs :: int

text \<open>Lines 62 to 66: the four running sums and the number of epochs.\<close>

definition fr_xe_epochs :: "config \<Rightarrow> int" where
  "fr_xe_epochs c = freezing_xe_epochs c"

definition fr_sc_epochs :: "config \<Rightarrow> int" where
  "fr_sc_epochs c = fr_xe_epochs c + freezing_sc_epochs c"

definition ft_xe_epochs :: "config \<Rightarrow> int" where
  "ft_xe_epochs c = fr_sc_epochs c + finetune_xe_epochs c"

definition ft_sc_epochs :: "config \<Rightarrow> int" where
  "ft_sc_epochs c = ft_xe_epochs c + finetune_sc_epochs c"

definition total_epochs :: "config \<Rightarrow> int" where
  "total_epochs c = ft_sc_epochs c"

text \<open>Line 28: the rank of the worker with local index \<open>gpu\<close>.\<close>

definition rank_of :: "config \<Rightarrow> int \<Rightarrow> int" where
  "rank_of c gpu = exp_rank c * exp_ngpus_per_node c + gpu"

text \<open>Line 45.\<close>

definition start_epoch :: int where
  "start_epoch = 0"

subsection \<open>Decimal rendering of an integer\<close>

text \<open>The f-string \<^verbatim>\<open>f'checkpoint_{epoch}.pth'\<close> renders \<^verbatim>\<open>epoch\<close> as Python's \<^verbatim>\<open>str\<close> does:
  decimal digits, most significant first, with a leading minus sign for a negative number.\<close>

definition digit_char :: "nat \<Rightarrow> char" where
  "digit_char d = char_of (48 + d)"

fun str_nat :: "nat \<Rightarrow> string" where
  "str_nat n = (if n < 10 then [digit_char n] else str_nat (n div 10) @ [digit_char (n mod 10)])"

declare str_nat.simps [simp del]

definition str_int :: "int \<Rightarrow> string" where
  "str_int i = (if i < 0 then CHR ''-'' # str_nat (nat (- i)) else str_nat (nat i))"

subsection \<open>Events, checkpoints and the worker's state\<close>

datatype split = Valid | Test

text \<open>One constructor for each call of \<^verbatim>\<open>main\<close> with an effect outside the process:
  \<^verbatim>\<open>dist.init_process_group\<close> (rank, world size), \<^verbatim>\<open>torch.cuda.set_device\<close> (device index),
  \<^verbatim>\<open>train_xe\<close> (epoch), \<^verbatim>\<open>samplers['train'].set_epoch\<close> (epoch), \<^verbatim>\<open>evaluate_metrics\<close>
  (split, epoch, \<^verbatim>\<open>which\<close>), \<^verbatim>\<open>save_checkpoint\<close> (file name, epoch) and
  \<^verbatim>\<open>torch.distributed.barrier\<close>.\<close>

datatype event =
    InitProcessGroup int int
  | SetDevice int
  | TrainXe int
  | SetEpoch int
  | EvaluateMetrics split int string
  | SaveCheckpoint string int
  | Barrier

text \<open>What a call of \<^verbatim>\<open>save_checkpoint\<close> is given: the model, optimizers and scheduler
  (together the learner, of an arbitrary type \<open>'l\<close>), \<^verbatim>\<open>epoch\<close>, \<^verbatim>\<open>scores\<close> and
  \<^verbatim>\<open>best_ciders\<close>.\<close>

record 'l checkpoint =
  ck_learner :: 'l
  ck_epoch :: int
  ck_scores :: "real list"
  ck_best_ciders :: "real list"

type_synonym 'l files = "string \<rightharpoonup> 'l checkpoint"

text \<open>The collaborators of \<^verbatim>\<open>main\<close> whose code is outside this file and whose results the
  driver only passes on: the effect of \<^verbatim>\<open>train_xe\<close> at an epoch on the learner of a rank,
  and the CIDEr score that \<^verbatim>\<open>evaluate_metrics\<close> measures on a split at an epoch.\<close>

record 'l collaborators =
  train_xe :: "int \<Rightarrow> int \<Rightarrow> 'l \<Rightarrow> 'l"
  cider_of :: "split \<Rightarrow> int \<Rightarrow> real"

text \<open>The local variables of \<^verbatim>\<open>main\<close> that change during the loop, the files written and
  the trace.\<close>

record 'l worker =
  learner :: 'l
  best_cider_val :: real
  best_cider_test :: real
  files :: "'l files"
  trace :: "event list"

text \<open>The errors: \<^verbatim>\<open>ConfigError\<close> is the specification's, and no line of the source raises
  it; \<^verbatim>\<open>SeedError\<close> stands for the exception of a seeding call that refuses the seed.\<close>

datatype error = ConfigError | SeedError

text \<open>Modelled from the spec: \<^verbatim>\<open>evaluate_metrics\<close> of \<^verbatim>\<open>engine.caption_engine\<close>, which is
  not among the sources. Section 4.4: it compares the score of the split with the current
  best of that split "and replaces it only if strictly greater (ties keep the incumbent)";
  \<^verbatim>\<open>main\<close> binds its result to the best score. The first argument is the score measured,
  the second the argument \<^verbatim>\<open>best_cider\<close>.\<close>

definition evaluate_metrics :: "real \<Rightarrow> real \<Rightarrow> real" where
  "evaluate_metrics cider best_cider = (if best_cider < cider then cider else best_cider)"

text \<open>Modelled from the spec: \<^verbatim>\<open>save_checkpoint\<close> of \<^verbatim>\<open>engine.caption_engine\<close>, which is
  not among the sources. Sections 3 and 6: a checkpoint record is a snapshot of what the
  call is given, stored under the file name; a later record of the same name replaces it.\<close>

definition save_checkpoint ::
  "'l \<Rightarrow> int \<Rightarrow> real list \<Rightarrow> real list \<Rightarrow> string \<Rightarrow> 'l files \<Rightarrow> 'l files" where
  "save_checkpoint l epoch scores best_ciders filename fs =
     fs(filename \<mapsto> \<lparr>ck_learner = l, ck_epoch = epoch, ck_scores = scores,
                     ck_best_ciders = best_ciders\<rparr>)"

text \<open>Modelled from the spec: \<^verbatim>\<open>restore(path)\<close> of section 4.5, which no source file
  defines or calls: it reads back the record stored under the path, if there is one.\<close>

definition restore :: "string \<Rightarrow> 'l files \<Rightarrow> 'l checkpoint option" where
  "restore path fs = fs path"

subsection \<open>One epoch: the body of the loop, lines 69 to 138\<close>

text \<open>Line 69: the label is assigned afresh in every iteration, to the same literal.\<close>

definition phase :: "int \<Rightarrow> string" where
  "phase epoch = ''ft_xe''"

text \<open>Lines 70 to 81.\<close>

definition train_step :: "'l collaborators \<Rightarrow> int \<Rightarrow> int \<Rightarrow> 'l worker \<Rightarrow> 'l worker" where
  "train_step ext rank epoch w =
     w\<lparr>learner := train_xe ext epoch rank (learner w),
       trace := trace w @ [TrainXe epoch, SetEpoch epoch]\<rparr>"

text \<open>Lines 83 to 97.\<close>

definition eval_valid_step :: "'l collaborators \<Rightarrow> int \<Rightarrow> int \<Rightarrow> 'l worker \<Rightarrow> 'l worker" where
  "eval_valid_step ext rank epoch w =
     (if rank = 0
      then w\<lparr>best_cider_val := evaluate_metrics (cider_of ext Valid epoch) (best_cider_val w),
             trace := trace w @ [EvaluateMetrics Valid epoch (phase epoch)]\<rparr>
      else w)"

text \<open>Lines 99 to 113.\<close>

definition eval_test_step :: "'l collaborators \<Rightarrow> int \<Rightarrow> int \<Rightarrow> 'l worker \<Rightarrow> 'l worker" where
  "eval_test_step ext rank epoch w =
     (if rank = 1
      then w\<lparr>best_cider_test := evaluate_metrics (cider_of ext Test epoch) (best_cider_test w),
             trace := trace w @ [EvaluateMetrics Test epoch (phase epoch)]\<rparr>
      else w)"

text \<open>Lines 116 to 125 and 127 to 136: one call of \<^verbatim>\<open>save_checkpoint\<close> under a file name.\<close>

definition save_as :: "string \<Rightarrow> int \<Rightarrow> 'l worker \<Rightarrow> 'l worker" where
  "save_as filename epoch w =
     w\<lparr>files := save_checkpoint (learner w) epoch [] [0, 0] filename (files w),
       trace := trace w @ [SaveCheckpoint filename epoch]\<rparr>"

definition rolling_name :: "int \<Rightarrow> string" where
  "rolling_name epoch = ''checkpoint_'' @ phase epoch @ ''.pth''"

definition milestone_name :: "int \<Rightarrow> string" where
  "milestone_name epoch = ''checkpoint_'' @ str_int epoch @ ''.pth''"

text \<open>Lines 115 to 136.\<close>

definition checkpoint_step :: "int \<Rightarrow> int \<Rightarrow> 'l worker \<Rightarrow> 'l worker" where
  "checkpoint_step rank epoch w =
     (if rank = 0
      then (let w' = save_as (rolling_name epoch) epoch w
            in if epoch \<ge> 15 then save_as (milestone_name epoch) epoch w' else w')
      else w)"

text \<open>Line 138.\<close>

definition barrier_step :: "'l worker \<Rightarrow> 'l worker" where
  "barrier_step w = w\<lparr>trace := trace w @ [Barrier]\<rparr>"

definition epoch_body :: "'l collaborators \<Rightarrow> int \<Rightarrow> int \<Rightarrow> 'l worker \<Rightarrow> 'l worker" where
  "epoch_body ext rank epoch w =
     barrier_step (checkpoint_step rank epoch (eval_test_step ext rank epoch
       (eval_valid_step ext rank epoch (train_step ext rank epoch w))))"

subsection \<open>The worker's entry point and its launcher\<close>

text \<open>Lines 28 to 47: the state before the loop. \<open>l\<close> is the learner as built in lines 39
  to 50 and \<open>fs\<close> the files that exist when the worker starts.\<close>

definition initial_worker :: "config \<Rightarrow> int \<Rightarrow> 'l \<Rightarrow> 'l files \<Rightarrow> 'l worker" where
  "initial_worker c gpu l fs =
     \<lparr>learner = l, best_cider_val = 0, best_cider_test = 0, files = fs,
      trace = [InitProcessGroup (rank_of c gpu) (exp_world_size c), SetDevice gpu]\<rparr>"

text \<open>Line 68: \<^verbatim>\<open>range(max(0, start_epoch), total_epochs)\<close>.\<close>

definition epoch_range :: "config \<Rightarrow> int list" where
  "epoch_range c = [max 0 start_epoch .. total_epochs c - 1]"

text \<open>\<^verbatim>\<open>main\<close> has no \<^verbatim>\<open>raise\<close> and no \<^verbatim>\<open>return\<close>: it ends when the loop does, so the
  model's result is always \<open>Inr\<close> of the final state. This is \<^verbatim>\<open>main\<close> for a seed that the
  seeding calls of lines 31 to 33 accept; \<open>main_seeded\<close> below puts these calls, which can
  fail, before it.\<close>

definition main :: "'l collaborators \<Rightarrow> int \<Rightarrow> config \<Rightarrow> 'l \<Rightarrow> 'l files \<Rightarrow> error + 'l worker" where
  "main ext gpu c l fs =
     Inr (fold (epoch_body ext (rank_of c gpu)) (epoch_range c) (initial_worker c gpu l fs))"

text \<open>Lines 31 to 33 hand \<^verbatim>\<open>config.exp.seed\<close> to \<^verbatim>\<open>torch.manual_seed\<close>, \<^verbatim>\<open>np.random.seed\<close>
  and \<^verbatim>\<open>random.seed\<close>. \<^verbatim>\<open>np.random.seed\<close> (line 32) raises \<^verbatim>\<open>ValueError\<close> for a seed outside
  \<open>[0, 2^32 - 1]\<close>; a seed inside is accepted by all three calls, and a seed that
  \<^verbatim>\<open>torch.manual_seed\<close> refuses is outside as well.\<close>

definition seeding :: "config \<Rightarrow> error + unit" where
  "seeding c = (if 0 \<le> exp_seed c \<and> exp_seed c \<le> 2 ^ 32 - 1 then Inr () else Inl SeedError)"

text \<open>\<^verbatim>\<open>main\<close> with the seeding calls: a refused seed ends the worker with the exception,
  before line 35 and so before any epoch; what the worker did until then (it joined the
  process group in line 29) is not part of the error value.\<close>

definition main_seeded ::
  "'l collaborators \<Rightarrow> int \<Rightarrow> config \<Rightarrow> 'l \<Rightarrow> 'l files \<Rightarrow> error + 'l worker" where
  "main_seeded ext gpu c l fs =
     (case seeding c of Inl err \<Rightarrow> Inl err | Inr u \<Rightarrow> main ext gpu c l fs)"

text \<open>Line 143: \<^verbatim>\<open>mp.spawn(main, nprocs=config.exp.ngpus_per_node, args=(config,))\<close> starts
  one process for each index of \<^verbatim>\<open>range(nprocs)\<close>; the list holds the index and rank of
  each.\<close>

definition spawned :: "config \<Rightarrow> (int \<times> int) list" where
  "spawned c = map (\<lambda>gpu. (gpu, rank_of c gpu)) [0 .. exp_ngpus_per_node c - 1]"

subsection \<open>Reading a trace\<close>

text \<open>The events of one iteration for a rank, in the order of the calls in lines 70 to
  138.\<close>

definition epoch_events :: "int \<Rightarrow> int \<Rightarrow> event list" where
  "epoch_events rank epoch =
     [TrainXe epoch, SetEpoch epoch]
     @ (if rank = 0 then [EvaluateMetrics Valid epoch ''ft_xe''] else [])
     @ (if rank = 1 then [EvaluateMetrics Test epoch ''ft_xe''] else [])
     @ (if rank = 0 then [SaveCheckpoint ''checkpoint_ft_xe.pth'' epoch] else [])
     @ (if rank = 0 \<and> epoch \<ge> 15 then [SaveCheckpoint (milestone_name epoch) epoch] else [])
     @ [Barrier]"

text \<open>The epochs for which a trace holds a training call.\<close>

fun train_epoch :: "event \<Rightarrow> int list" where
  "train_epoch (TrainXe e) = [e]"
| "train_epoch _ = []"

definition executed_epochs :: "event list \<Rightarrow> int list" where
  "executed_epochs tr = concat (map train_epoch tr)"

subsection \<open>The phase scheduler and the objectives as the specification words them\<close>

text \<open>Section 4.2 of the specification: four phases in the order freeze-likelihood,
  freeze-reward, finetune-likelihood, finetune-reward; \<^verbatim>\<open>resolve(epoch)\<close> "returns the phase
  whose boundary the epoch falls strictly below, scanning boundaries in increasing order
  and returning the first match; fails with ConfigError if all per-phase counts are
  non-positive or if epoch >= b4". The source has no such function; this one is the
  specification's, for comparison with what \<^verbatim>\<open>main\<close> does.\<close>

datatype phase_label = FreezeLikelihood | FreezeReward | FinetuneLikelihood | FinetuneReward

definition spec_resolve :: "config \<Rightarrow> int \<Rightarrow> error + phase_label" where
  "spec_resolve c e =
     (if freezing_xe_epochs c \<le> 0 \<and> freezing_sc_epochs c \<le> 0
         \<and> finetune_xe_epochs c \<le> 0 \<and> finetune_sc_epochs c \<le> 0 then Inl ConfigError
      else if e < fr_xe_epochs c then Inr FreezeLikelihood
      else if e < fr_sc_epochs c then Inr FreezeReward
      else if e < ft_xe_epochs c then Inr FinetuneLikelihood
      else if e < ft_sc_epochs c then Inr FinetuneReward
      else Inl ConfigError)"

text \<open>Section 4.3: the objective tag of a phase.\<close>

datatype objective = Likelihood | Reward

fun spec_objective :: "phase_label \<Rightarrow> objective" where
  "spec_objective FreezeLikelihood = Likelihood"
| "spec_objective FreezeReward = Reward"
| "spec_objective FinetuneLikelihood = Likelihood"
| "spec_objective FinetuneReward = Reward"

text \<open>The tags of the four phases in the source's own abbreviations, those of the variables
  of lines 62 to 65 and of the literal of line 69.\<close>

fun phase_tag :: "phase_label \<Rightarrow> string" where
  "phase_tag FreezeLikelihood = ''fr_xe''"
| "phase_tag FreezeReward = ''fr_sc''"
| "phase_tag FinetuneLikelihood = ''ft_xe''"
| "phase_tag FinetuneReward = ''ft_sc''"

subsection \<open>More readings of a trace\<close>

text \<open>The objective of a training call: \<^verbatim>\<open>train_xe\<close> is the cross-entropy (likelihood)
  trainer; \<open>objectives_run tr e\<close> lists the objectives of the training calls of epoch \<open>e\<close>.\<close>

fun event_objective :: "event \<Rightarrow> (int \<times> objective) list" where
  "event_objective (TrainXe e) = [(e, Likelihood)]"
| "event_objective _ = []"

definition objectives_run :: "event list \<Rightarrow> int \<Rightarrow> objective list" where
  "objectives_run tr e = map snd (filter (\<lambda>p. fst p = e) (concat (map event_objective tr)))"

text \<open>The phase label (\<^verbatim>\<open>which\<close>) handed to each evaluation, with its epoch.\<close>

fun event_label :: "event \<Rightarrow> (int \<times> string) list" where
  "event_label (EvaluateMetrics s e p) = [(e, p)]"
| "event_label _ = []"

definition labels_used :: "event list \<Rightarrow> (int \<times> string) list" where
  "labels_used tr = concat (map event_label tr)"

text \<open>The evaluations of a trace, as pairs of split and epoch, and its number of barriers.\<close>

fun event_evaluation :: "event \<Rightarrow> (split \<times> int) list" where
  "event_evaluation (EvaluateMetrics s e p) = [(s, e)]"
| "event_evaluation _ = []"

definition evaluated :: "event list \<Rightarrow> (split \<times> int) list" where
  "evaluated tr = concat (map event_evaluation tr)"

definition barriers :: "event list \<Rightarrow> nat" where
  "barriers tr = length (filter (\<lambda>ev. ev = Barrier) tr)"

subsection \<open>Concrete inputs\<close>

text \<open>The phase lengths \<open>(10, 5, 5, 20)\<close> of the specification's example, on one node with
  two devices; and the same with all four lengths zero.\<close>

definition example_config :: config where
  "example_config =
     \<lparr>exp_rank = 0, exp_ngpus_per_node = 2, exp_world_size = 2, exp_seed = 0,
      freezing_xe_epochs = 10, freezing_sc_epochs = 5,
      finetune_xe_epochs = 5, finetune_sc_epochs = 20\<rparr>"

definition zero_config :: config where
  "zero_config =
     \<lparr>exp_rank = 0, exp_ngpus_per_node = 2, exp_world_size = 2, exp_seed = 0,
      freezing_xe_epochs = 0, freezing_sc_epochs = 0,
      finetune_xe_epochs = 0, finetune_sc_epochs = 0\<rparr>"

text \<open>Collaborators for closed examples: the learner is the number of training calls so
  far, and every evaluation measures the score one half.\<close>

definition count_train :: "int \<Rightarrow> int \<Rightarrow> nat \<Rightarrow> nat" where
  "count_train epoch rank l = Suc l"

definition half_score :: "split \<Rightarrow> int \<Rightarrow> real" where
  "half_score s epoch = 1 / 2"

definition sample_collaborators :: "nat collaborators" where
  "sample_collaborators = \<lparr>train_xe = count_train, cider_of = half_score\<rparr>"

definition no_files :: "nat files" where
  "no_files = Map.empty"

subsection \<open>The best score over the epochs\<close>

text \<open>Lines 84 and 94, 100 and 110: each epoch's call of \<^verbatim>\<open>evaluate_metrics\<close> is given the
  best score so far and its result becomes the best score; over the scores measured in a
  list of epochs, from a starting value, that is a fold.\<close>

definition track_best :: "real \<Rightarrow> real list \<Rightarrow> real" where
  "track_best best_cider ciders = fold evaluate_metrics ciders best_cider"

subsection \<open>Joining the group, binding a device, nodes\<close>

text \<open>The rank and world size a trace joins the process group with, and the devices it
  binds.\<close>

fun event_join :: "event \<Rightarrow> (int \<times> int) list" where
  "event_join (InitProcessGroup r n) = [(r, n)]"
| "event_join _ = []"

definition joined_as :: "event list \<Rightarrow> (int \<times> int) list" where
  "joined_as tr = concat (map event_join tr)"

fun event_device :: "event \<Rightarrow> int list" where
  "event_device (SetDevice d) = [d]"
| "event_device _ = []"

definition devices_bound :: "event list \<Rightarrow> int list" where
  "devices_bound tr = concat (map event_device tr)"

text \<open>The configuration of the node with index \<open>node\<close>: \<^verbatim>\<open>config.exp.rank\<close> is the node's
  index, the rest is shared.\<close>

definition on_node :: "config \<Rightarrow> int \<Rightarrow> config" where
  "on_node c node = c\<lparr>exp_rank := node\<rparr>"

text \<open>Two worker states agree on everything but the files.\<close>

definition same_progress :: "'l worker \<Rightarrow> 'l worker \<Rightarrow> bool" where
  "same_progress w w' =
     (learner w = learner w' \<and> best_cider_val w = best_cider_val w'
      \<and> best_cider_test w = best_cider_test w' \<and> trace w = trace w')"

subsection \<open>Reading a decimal string back\<close>

text \<open>The value of a string of decimal digits, and what a decimal digit is: the inverse of
  \<open>str_nat\<close>, by which two numbers with the same rendering are equal.\<close>

definition nat_of_str :: "string \<Rightarrow> nat" where
  "nat_of_str s = foldl (\<lambda>a ch. 10 * a + (of_char ch - 48)) 0 s"

definition is_digit :: "char \<Rightarrow> bool" where
  "is_digit ch = (48 \<le> (of_char ch :: nat) \<and> (of_char ch :: nat) \<le> 57)"

subsection \<open>Checkpoints written\<close>

text \<open>The file name and epoch of each call of \<^verbatim>\<open>save_checkpoint\<close> in a trace; the calls of
  one epoch on rank 0 (lines 116 to 136); and the record that both calls store, with the
  literals \<^verbatim>\<open>scores=[]\<close> and \<^verbatim>\<open>best_ciders=[0, 0]\<close> of lines 120, 121, 131 and 132.\<close>

fun event_save :: "event \<Rightarrow> (string \<times> int) list" where
  "event_save (SaveCheckpoint fn e) = [(fn, e)]"
| "event_save _ = []"

definition saves :: "event list \<Rightarrow> (string \<times> int) list" where
  "saves tr = concat (map event_save tr)"

definition epoch_saves :: "int \<Rightarrow> (string \<times> int) list" where
  "epoch_saves e = (rolling_name e, e) # (if 15 \<le> e then [(milestone_name e, e)] else [])"

definition written :: "'l \<Rightarrow> int \<Rightarrow> 'l checkpoint" where
  "written l k = \<lparr>ck_learner = l, ck_epoch = k, ck_scores = [], ck_best_ciders = [0, 0]\<rparr>"

text \<open>A configuration with one epoch in all.\<close>

definition one_epoch_config :: config where
  "one_epoch_config =
     \<lparr>exp_rank = 0, exp_ngpus_per_node = 2, exp_world_size = 2, exp_seed = 0,
      freezing_xe_epochs = 1, freezing_sc_epochs = 0,
      finetune_xe_epochs = 0, finetune_sc_epochs = 0\<rparr>"

subsection \<open>The workers of a launch\<close>

text \<open>The ranks of the workers that the launcher starts on the nodes \<open>0, ..., nodes - 1\<close>,
  node after node; and, of a list of ranks, those whose epoch holds an evaluation of a
  split.\<close>

definition launched_ranks :: "config \<Rightarrow> int \<Rightarrow> int list" where
  "launched_ranks c nodes =
     concat (map (\<lambda>node. map snd (spawned (on_node c node))) [0 .. nodes - 1])"

definition evaluators :: "split \<Rightarrow> int \<Rightarrow> int list \<Rightarrow> int list" where
  "evaluators s epoch ranks =
     filter (\<lambda>rank. (s, epoch) \<in> set (evaluated (epoch_events rank epoch))) ranks"

text \<open>A launch of one worker in all, with one epoch.\<close>

definition single_worker_config :: config where
  "single_worker_config =
     \<lparr>exp_rank = 0, exp_ngpus_per_node = 1, exp_world_size = 1, exp_seed = 0,
      freezing_xe_epochs = 1, freezing_sc_epochs = 0,
      finetune_xe_epochs = 0, finetune_sc_epochs = 0\<rparr>"

subsection \<open>The epochs with a checkpoint of their own\<close>

text \<open>The epochs of the calls of \<^verbatim>\<open>save_checkpoint\<close> whose file name is the one made from the
  epoch number.\<close>

definition milestone_epochs :: "event list \<Rightarrow> int list" where
  "milestone_epochs tr = map snd (filter (\<lambda>p. fst p = milestone_name (snd p)) (saves tr))"

text \<open>A second configuration, whose lengths, seed and sizes all differ from those of
  \<open>example_config\<close>.\<close>

definition other_config :: config where
  "other_config =
     \<lparr>exp_rank = 0, exp_ngpus_per_node = 1, exp_world_size = 1, exp_seed = 7,
      freezing_xe_epochs = 3, freezing_sc_epochs = 4,
      finetune_xe_epochs = 6, finetune_sc_epochs = 5\<rparr>"

section \<open>Properties\<close>

subsection \<open>The trace of a run\<close>

lemma trace_epoch_body:
  "trace (epoch_body ext rank epoch w) = trace w @ epoch_events rank epoch"
  by (simp add: epoch_body_def barrier_step_def checkpoint_step_def save_as_def
      eval_test_step_def eval_valid_step_def train_step_def epoch_events_def phase_def
      rolling_name_def Let_def)

lemma trace_fold:
  "trace (fold (epoch_body ext rank) es w) = trace w @ concat (map (epoch_events rank) es)"
  by (induction es arbitrary: w) (simp_all add: trace_epoch_body)

lemma epoch_range_eq: "epoch_range c = [0 .. total_epochs c - 1]"
  by (simp add: epoch_range_def start_epoch_def)

lemma executed_epochs_Nil [simp]: "executed_epochs [] = []"
  by (simp add: executed_epochs_def)

lemma executed_epochs_append [simp]:
  "executed_epochs (xs @ ys) = executed_epochs xs @ executed_epochs ys"
  by (simp add: executed_epochs_def)

lemma executed_epochs_epoch_events [simp]:
  "executed_epochs (epoch_events rank epoch) = [epoch]"
  by (simp add: executed_epochs_def epoch_events_def)

lemma executed_epochs_concat:
  "executed_epochs (concat (map (epoch_events rank) es)) = es"
  by (induction es) simp_all

text \<open>Claim C4. Whatever the configuration, the loop of \<^verbatim>\<open>main\<close> trains on exactly the
  epochs from the starting epoch to \<open>total_epochs - 1\<close> (the sum of the four counts, less
  one), in this order, and then \<^verbatim>\<open>main\<close> returns; no epoch at or beyond the sum is run.\<close>

theorem loop_runs_epochs_below_total:
  "\<exists>w. main ext gpu c l fs = Inr w
      \<and> executed_epochs (trace w) = [start_epoch .. total_epochs c - 1]
      \<and> set (executed_epochs (trace w)) = {e. start_epoch \<le> e \<and> e < total_epochs c}
      \<and> total_epochs c = freezing_xe_epochs c + freezing_sc_epochs c
            + finetune_xe_epochs c + finetune_sc_epochs c"
proof -
  let ?w = "fold (epoch_body ext (rank_of c gpu)) (epoch_range c) (initial_worker c gpu l fs)"
  have run: "executed_epochs (trace ?w) = [start_epoch .. total_epochs c - 1]"
    by (simp add: trace_fold executed_epochs_concat epoch_range_eq start_epoch_def)
       (simp add: initial_worker_def executed_epochs_def)
  have "set [start_epoch .. total_epochs c - 1] = {e. start_epoch \<le> e \<and> e < total_epochs c}"
    by auto
  moreover have "total_epochs c = freezing_xe_epochs c + freezing_sc_epochs c
            + finetune_xe_epochs c + finetune_sc_epochs c"
    by (simp add: total_epochs_def ft_sc_epochs_def ft_xe_epochs_def fr_sc_epochs_def
        fr_xe_epochs_def)
  ultimately show ?thesis
    using run by (simp add: main_def)
qed

lemma main_eq:
  "main ext gpu c l fs =
     Inr (fold (epoch_body ext (rank_of c gpu)) [0 .. total_epochs c - 1]
            (initial_worker c gpu l fs))"
  by (simp add: main_def epoch_range_eq)

lemma trace_initial [simp]:
  "trace (initial_worker c gpu l fs) =
     [InitProcessGroup (rank_of c gpu) (exp_world_size c), SetDevice gpu]"
  by (simp add: initial_worker_def)

lemma mem_upto_below: "(e \<in> set [0 .. n - 1]) = (0 \<le> e \<and> e < (n::int))"
  by auto

subsection \<open>The objective of each epoch\<close>

lemma objectives_run_Nil [simp]: "objectives_run [] e = []"
  by (simp add: objectives_run_def)

lemma objectives_run_append:
  "objectives_run (xs @ ys) e = objectives_run xs e @ objectives_run ys e"
  by (simp add: objectives_run_def)

lemma objectives_run_epoch_events:
  "objectives_run (epoch_events rank epoch) e = (if epoch = e then [Likelihood] else [])"
  by (simp add: objectives_run_def epoch_events_def)

lemma objectives_run_concat:
  "distinct es \<Longrightarrow>
   objectives_run (concat (map (epoch_events rank) es)) e
     = (if e \<in> set es then [Likelihood] else [])"
  by (induction es) (auto simp: objectives_run_append objectives_run_epoch_events)

lemma objectives_run_main:
  "objectives_run (trace (fold (epoch_body ext rank) [0 .. n - 1] (initial_worker c gpu l fs))) e
     = (if 0 \<le> e \<and> e < n then [Likelihood] else [])"
proof -
  have "objectives_run (trace (initial_worker c gpu l fs)) e = []"
    by (simp add: objectives_run_def)
  then show ?thesis
    by (simp only: trace_fold objectives_run_append objectives_run_concat distinct_upto
        append_Nil mem_upto_below)
qed

lemma example_boundaries:
  "fr_xe_epochs example_config = 10" "fr_sc_epochs example_config = 15"
  "ft_xe_epochs example_config = 20" "ft_sc_epochs example_config = 40"
  "total_epochs example_config = 40"
  by (simp_all add: example_config_def total_epochs_def ft_sc_epochs_def ft_xe_epochs_def
      fr_sc_epochs_def fr_xe_epochs_def)

lemma spec_resolve_example:
  "spec_resolve example_config 9 = Inr FreezeLikelihood"
  "spec_resolve example_config 10 = Inr FreezeReward"
  "spec_resolve example_config 39 = Inr FinetuneReward"
  by (simp_all add: spec_resolve_def example_boundaries) (simp_all add: example_config_def)

text \<open>Claim C2 says that the objective of an epoch follows the tag of its phase. It does
  not: with the phase lengths \<open>(10, 5, 5, 20)\<close>, epoch 10 lies in the freeze-reward phase,
  whose objective is the reward-based one, and the run trains epoch 10 once, with the
  cross-entropy objective.\<close>

theorem reward_phase_epoch_trains_xe:
  "spec_resolve example_config 10 = Inr FreezeReward
   \<and> spec_objective FreezeReward = Reward
   \<and> \<not> isl (main sample_collaborators 0 example_config 0 no_files)
   \<and> objectives_run (trace (projr (main sample_collaborators 0 example_config 0 no_files))) 10
       = [Likelihood]"
  using objectives_run_main [of sample_collaborators "rank_of example_config 0" 40
      example_config 0 0 no_files 10]
  by (simp add: spec_resolve_example main_eq example_boundaries)

text \<open>Claim C2, amended. Every epoch that \<^verbatim>\<open>main\<close> runs has exactly one training call, the
  cross-entropy trainer \<^verbatim>\<open>train_xe\<close> (lines 70 to 80), whatever the phase lengths; no epoch
  outside the range has a training call.\<close>

theorem every_epoch_trains_xe:
  "\<exists>w. main ext gpu c l fs = Inr w
     \<and> objectives_run (trace w) e
         = (if start_epoch \<le> e \<and> e < total_epochs c then [Likelihood] else [])"
  by (simp add: main_eq objectives_run_main start_epoch_def)

subsection \<open>The phase label\<close>

lemma labels_used_Nil [simp]: "labels_used [] = []"
  by (simp add: labels_used_def)

lemma labels_used_append:
  "labels_used (xs @ ys) = labels_used xs @ labels_used ys"
  by (simp add: labels_used_def)

lemma labels_used_epoch_events:
  "labels_used (epoch_events rank epoch)
     = (if rank = 0 \<or> rank = 1 then [(epoch, ''ft_xe'')] else [])"
  by (simp add: labels_used_def epoch_events_def)

lemma labels_used_concat:
  "labels_used (concat (map (epoch_events rank) es))
     = (if rank = 0 \<or> rank = 1 then map (\<lambda>e. (e, ''ft_xe'')) es else [])"
  by (induction es) (simp_all add: labels_used_append labels_used_epoch_events)

lemma labels_used_main:
  "labels_used (trace (fold (epoch_body ext rank) es (initial_worker c gpu l fs)))
     = (if rank = 0 \<or> rank = 1 then map (\<lambda>e. (e, ''ft_xe'')) es else [])"
proof -
  have "labels_used (trace (initial_worker c gpu l fs)) = []"
    by (simp add: labels_used_def)
  then show ?thesis
    by (simp only: trace_fold labels_used_append labels_used_concat append_Nil)
qed

text \<open>Claim C1 says that the label of an epoch is the first phase whose boundary exceeds
  it. It is not: with the phase lengths \<open>(10, 5, 5, 20)\<close>, epoch 9 lies below the first
  boundary, so its phase is freeze-likelihood, and line 69 labels it \<^verbatim>\<open>'ft_xe'\<close>; rank 0
  evaluates epoch 9 under that label.\<close>

theorem first_phase_epoch_is_labelled_ft_xe:
  "spec_resolve example_config 9 = Inr FreezeLikelihood
   \<and> phase 9 \<noteq> phase_tag FreezeLikelihood
   \<and> \<not> isl (main sample_collaborators 0 example_config 0 no_files)
   \<and> (9, phase_tag FreezeLikelihood)
        \<notin> set (labels_used (trace (projr (main sample_collaborators 0 example_config 0 no_files))))
   \<and> (9, phase_tag FinetuneLikelihood)
        \<in> set (labels_used (trace (projr (main sample_collaborators 0 example_config 0 no_files))))"
proof -
  have r: "rank_of example_config 0 = 0"
    by (simp add: rank_of_def example_config_def)
  show ?thesis
    by (auto simp add: spec_resolve_example main_eq example_boundaries labels_used_main r
        phase_def)
qed

text \<open>Claim C1, amended. The four boundaries are the running sums of the four phase
  lengths, \<open>(10, 15, 20, 40)\<close> for the lengths \<open>(10, 5, 5, 20)\<close>; the label of every epoch
  is the finetune-likelihood one, \<^verbatim>\<open>'ft_xe'\<close>, wherever the epoch lies among the boundaries,
  and it is the label under which ranks 0 and 1 evaluate every epoch of the run.\<close>

theorem boundaries_are_running_sums_and_label_is_ft_xe:
  "fr_xe_epochs c = freezing_xe_epochs c
   \<and> fr_sc_epochs c = freezing_xe_epochs c + freezing_sc_epochs c
   \<and> ft_xe_epochs c = freezing_xe_epochs c + freezing_sc_epochs c + finetune_xe_epochs c
   \<and> ft_sc_epochs c = freezing_xe_epochs c + freezing_sc_epochs c + finetune_xe_epochs c
                        + finetune_sc_epochs c
   \<and> (fr_xe_epochs example_config, fr_sc_epochs example_config,
       ft_xe_epochs example_config, ft_sc_epochs example_config) = (10, 15, 20, 40)
   \<and> phase e = phase_tag FinetuneLikelihood
   \<and> (\<exists>w. main ext gpu c l fs = Inr w
        \<and> labels_used (trace w)
            = (if rank_of c gpu = 0 \<or> rank_of c gpu = 1
               then map (\<lambda>e. (e, phase_tag FinetuneLikelihood)) [start_epoch .. total_epochs c - 1]
               else []))"
proof -
  have sums: "fr_xe_epochs c = freezing_xe_epochs c"
    "fr_sc_epochs c = freezing_xe_epochs c + freezing_sc_epochs c"
    "ft_xe_epochs c = freezing_xe_epochs c + freezing_sc_epochs c + finetune_xe_epochs c"
    "ft_sc_epochs c = freezing_xe_epochs c + freezing_sc_epochs c + finetune_xe_epochs c
                        + finetune_sc_epochs c"
    by (simp_all add: ft_sc_epochs_def ft_xe_epochs_def fr_sc_epochs_def fr_xe_epochs_def)
  have run: "\<exists>w. main ext gpu c l fs = Inr w
        \<and> labels_used (trace w)
            = (if rank_of c gpu = 0 \<or> rank_of c gpu = 1
               then map (\<lambda>e. (e, phase_tag FinetuneLikelihood)) [start_epoch .. total_epochs c - 1]
               else [])"
    by (simp add: main_eq labels_used_main start_epoch_def)
  have "phase e = phase_tag FinetuneLikelihood"
    by (simp add: phase_def)
  with sums run show ?thesis
    by (simp only: example_boundaries simp_thms)
qed

subsection \<open>A run whose phase lengths are all non-positive\<close>

lemma nonpositive_total:
  "freezing_xe_epochs c \<le> 0 \<Longrightarrow> freezing_sc_epochs c \<le> 0 \<Longrightarrow> finetune_xe_epochs c \<le> 0
   \<Longrightarrow> finetune_sc_epochs c \<le> 0 \<Longrightarrow> total_epochs c \<le> 0"
  by (simp add: total_epochs_def ft_sc_epochs_def ft_xe_epochs_def fr_sc_epochs_def
      fr_xe_epochs_def)

lemma zero_config_counts:
  "freezing_xe_epochs zero_config = 0" "freezing_sc_epochs zero_config = 0"
  "finetune_xe_epochs zero_config = 0" "finetune_sc_epochs zero_config = 0"
  by (simp_all add: zero_config_def)

lemma zero_config_seed: "seeding zero_config = Inr ()"
  by (simp add: seeding_def zero_config_def)

text \<open>Claim C3 says that a configuration whose four phase lengths are all non-positive
  fails with \<^verbatim>\<open>ConfigError\<close>. With all four lengths zero, and a seed that the seeding
  calls accept, the specification's resolver fails, and \<^verbatim>\<open>main\<close> does not: it returns the
  state it had before the loop.\<close>

theorem zero_counts_run_returns_normally:
  "spec_resolve zero_config 0 = Inl ConfigError
   \<and> main sample_collaborators 0 zero_config 0 no_files \<noteq> Inl ConfigError
   \<and> main sample_collaborators 0 zero_config 0 no_files
       = Inr (initial_worker zero_config 0 0 no_files)
   \<and> seeding zero_config = Inr ()
   \<and> main_seeded sample_collaborators 0 zero_config 0 no_files
       = Inr (initial_worker zero_config 0 0 no_files)"
proof -
  have "total_epochs zero_config \<le> 0"
    by (rule nonpositive_total) (simp_all add: zero_config_counts)
  then show ?thesis
    by (simp add: main_eq spec_resolve_def zero_config_counts main_seeded_def zero_config_seed)
qed

text \<open>Claim C3, amended. If all four phase lengths are non-positive, the worker never
  fails with \<^verbatim>\<open>ConfigError\<close>. When the seed is one that the seeding calls of lines 31 to
  33 accept (from 0 to \<open>2^32 - 1\<close>), it raises nothing: it runs no epoch and returns, its
  only effects being the two calls before the loop. When the seed is refused, it fails in
  the seeding calls, before any epoch.\<close>

theorem nonpositive_counts_run_no_epoch:
  assumes "freezing_xe_epochs c \<le> 0" and "freezing_sc_epochs c \<le> 0"
    and "finetune_xe_epochs c \<le> 0" and "finetune_sc_epochs c \<le> 0"
  shows "main_seeded ext gpu c l fs
       = (if 0 \<le> exp_seed c \<and> exp_seed c \<le> 2 ^ 32 - 1
          then Inr (initial_worker c gpu l fs) else Inl SeedError)
     \<and> main_seeded ext gpu c l fs \<noteq> Inl ConfigError
     \<and> executed_epochs (trace (initial_worker c gpu l fs)) = []
     \<and> trace (initial_worker c gpu l fs)
         = [InitProcessGroup (rank_of c gpu) (exp_world_size c), SetDevice gpu]"
proof -
  have "total_epochs c \<le> 0"
    using assms by (rule nonpositive_total)
  then have m: "main ext gpu c l fs = Inr (initial_worker c gpu l fs)"
    by (simp add: main_eq)
  have "executed_epochs (trace (initial_worker c gpu l fs)) = []"
    by (simp add: executed_epochs_def)
  with m show ?thesis
    by (simp add: main_seeded_def seeding_def)
qed

theorem nonpositive_counts_run_no_epoch_witness:
  "main_seeded sample_collaborators 1 zero_config 0 no_files
       = Inr (initial_worker zero_config 1 0 no_files)
     \<and> main_seeded sample_collaborators 1 zero_config 0 no_files \<noteq> Inl ConfigError
     \<and> executed_epochs (trace (initial_worker zero_config 1 0 no_files)) = []
     \<and> trace (initial_worker zero_config 1 0 no_files)
         = [InitProcessGroup (rank_of zero_config 1) (exp_world_size zero_config), SetDevice 1]"
  using nonpositive_counts_run_no_epoch [of zero_config sample_collaborators 1 0 no_files]
  by (simp add: zero_config_counts) (simp add: zero_config_def)

subsection \<open>Evaluation by rank\<close>

lemma evaluated_Nil [simp]: "evaluated [] = []"
  by (simp add: evaluated_def)

lemma evaluated_append: "evaluated (xs @ ys) = evaluated xs @ evaluated ys"
  by (simp add: evaluated_def)

lemma evaluated_epoch_events:
  "evaluated (epoch_events rank epoch)
     = (if rank = 0 then [(Valid, epoch)] else if rank = 1 then [(Test, epoch)] else [])"
  by (simp add: evaluated_def epoch_events_def)

lemma evaluated_concat:
  "evaluated (concat (map (epoch_events rank) es))
     = (if rank = 0 then map (Pair Valid) es else if rank = 1 then map (Pair Test) es else [])"
  by (induction es) (simp_all add: evaluated_append evaluated_epoch_events)

lemma barriers_Nil [simp]: "barriers [] = 0"
  by (simp add: barriers_def)

lemma barriers_append: "barriers (xs @ ys) = barriers xs + barriers ys"
  by (simp add: barriers_def)

lemma barriers_epoch_events: "barriers (epoch_events rank epoch) = 1"
  by (simp add: barriers_def epoch_events_def)

lemma barriers_concat: "barriers (concat (map (epoch_events rank) es)) = length es"
  by (induction es) (simp_all add: barriers_append barriers_epoch_events)

lemma last_epoch_events: "last (epoch_events rank epoch) = Barrier"
  by (simp add: epoch_events_def)

subsection \<open>Best scores\<close>


lemma evaluate_metrics_max: "evaluate_metrics cider best = max best cider"
  by (simp add: evaluate_metrics_def max_def)

lemma track_best_fold_max: "track_best best ciders = fold max ciders best"
proof -
  have "evaluate_metrics = (\<lambda>c b. max c b)"
    by (intro ext) (simp add: evaluate_metrics_max max.commute)
  then show ?thesis
    by (simp add: track_best_def)
qed

lemma track_best_Max: "track_best best ciders = Max (set (best # ciders))"
  by (simp only: track_best_fold_max Max.set_eq_fold)

lemma track_best_ge: "best \<le> track_best best ciders"
  by (simp add: track_best_Max)

lemma track_best_append:
  "track_best best (ciders @ later) = track_best (track_best best ciders) later"
  by (simp add: track_best_def)

lemma track_best_example: "track_best 0 [0.5, 0.3, 0.7] = 0.7"
  by (simp add: track_best_def evaluate_metrics_def)

lemma best_cider_val_epoch_body:
  "best_cider_val (epoch_body ext rank epoch w)
     = (if rank = 0 then evaluate_metrics (cider_of ext Valid epoch) (best_cider_val w)
        else best_cider_val w)"
  by (simp add: epoch_body_def barrier_step_def checkpoint_step_def save_as_def
      eval_test_step_def eval_valid_step_def train_step_def Let_def)

lemma best_cider_test_epoch_body:
  "best_cider_test (epoch_body ext rank epoch w)
     = (if rank = 1 then evaluate_metrics (cider_of ext Test epoch) (best_cider_test w)
        else best_cider_test w)"
  by (simp add: epoch_body_def barrier_step_def checkpoint_step_def save_as_def
      eval_test_step_def eval_valid_step_def train_step_def Let_def)

lemma best_cider_val_fold:
  "best_cider_val (fold (epoch_body ext rank) es w)
     = (if rank = 0 then track_best (best_cider_val w) (map (cider_of ext Valid) es)
        else best_cider_val w)"
  by (induction es arbitrary: w) (simp_all add: best_cider_val_epoch_body track_best_def)

lemma best_cider_test_fold:
  "best_cider_test (fold (epoch_body ext rank) es w)
     = (if rank = 1 then track_best (best_cider_test w) (map (cider_of ext Test) es)
        else best_cider_test w)"
  by (induction es arbitrary: w) (simp_all add: best_cider_test_epoch_body track_best_def)

text \<open>Claim C6. The best score of a split changes only when the new score is strictly
  greater, and a tie keeps it; so over the epochs it never decreases and is the maximum of
  the starting value and the scores seen so far; the scores 0.5, 0.3, 0.7 from the starting
  value 0 give 0.7. In a run, the best validation score of rank 0 and the best test score
  of rank 1 are these running maxima from 0.0 of the scores measured at the epochs run.\<close>

theorem best_score_is_running_maximum:
  "(evaluate_metrics cider best \<noteq> best) = (best < cider)
   \<and> evaluate_metrics best best = best
   \<and> evaluate_metrics cider best = max best cider
   \<and> best \<le> track_best best ciders
   \<and> track_best best ciders \<le> track_best best (ciders @ later)
   \<and> track_best best ciders = Max (set (best # ciders))
   \<and> track_best 0 [0.5, 0.3, 0.7] = 0.7
   \<and> (\<exists>w. main ext gpu c l fs = Inr w
        \<and> best_cider_val w
            = (if rank_of c gpu = 0
               then track_best 0 (map (cider_of ext Valid) [start_epoch .. total_epochs c - 1])
               else 0)
        \<and> best_cider_test w
            = (if rank_of c gpu = 1
               then track_best 0 (map (cider_of ext Test) [start_epoch .. total_epochs c - 1])
               else 0))"
proof -
  have step: "(evaluate_metrics cider best \<noteq> best) = (best < cider)"
    "evaluate_metrics best best = best"
    by (simp_all add: evaluate_metrics_def)
  have mono: "track_best best ciders \<le> track_best best (ciders @ later)"
    by (simp only: track_best_append track_best_ge)
  have run: "\<exists>w. main ext gpu c l fs = Inr w
        \<and> best_cider_val w
            = (if rank_of c gpu = 0
               then track_best 0 (map (cider_of ext Valid) [start_epoch .. total_epochs c - 1])
               else 0)
        \<and> best_cider_test w
            = (if rank_of c gpu = 1
               then track_best 0 (map (cider_of ext Test) [start_epoch .. total_epochs c - 1])
               else 0)"
    by (simp add: main_eq best_cider_val_fold best_cider_test_fold start_epoch_def
        initial_worker_def)
  show ?thesis
    using step mono run track_best_ge [of best ciders] track_best_Max [of best ciders]
      track_best_example evaluate_metrics_max [of cider best]
    by (simp only: simp_thms)
qed

subsection \<open>What a run starts from\<close>

lemma executed_epochs_Cons:
  "executed_epochs (ev # tr) = train_epoch ev @ executed_epochs tr"
  by (simp add: executed_epochs_def)


lemma same_progress_epoch_body:
  "same_progress w w' \<Longrightarrow> same_progress (epoch_body ext rank epoch w) (epoch_body ext rank epoch w')"
  by (simp add: same_progress_def epoch_body_def barrier_step_def checkpoint_step_def
      save_as_def eval_test_step_def eval_valid_step_def train_step_def Let_def)

lemma same_progress_fold:
  "same_progress w w' \<Longrightarrow>
   same_progress (fold (epoch_body ext rank) es w) (fold (epoch_body ext rank) es w')"
  by (induction es arbitrary: w w') (simp_all add: same_progress_epoch_body)

lemma same_progress_initial:
  "same_progress (initial_worker c gpu l fs) (initial_worker c gpu l fs')"
  by (simp add: same_progress_def initial_worker_def)

text \<open>Claim C10. Every call of \<^verbatim>\<open>main\<close> starts at epoch 0 with both best scores 0.0, and
  nothing in it reads a checkpoint: whatever files exist when it starts, it trains the
  same epochs \<open>0, ..., total_epochs - 1\<close> and ends with the same learner, best scores and
  trace, so it never resumes from a checkpoint written before.\<close>

theorem run_starts_afresh:
  "start_epoch = 0
   \<and> best_cider_val (initial_worker c gpu l fs) = 0
   \<and> best_cider_test (initial_worker c gpu l fs) = 0
   \<and> (\<exists>w w'. main ext gpu c l fs = Inr w \<and> main ext gpu c l fs' = Inr w'
         \<and> same_progress w w'
         \<and> executed_epochs (trace w') = [0 .. total_epochs c - 1])"
proof -
  have "executed_epochs (trace (fold (epoch_body ext (rank_of c gpu))
          [0 .. total_epochs c - 1] (initial_worker c gpu l fs'))) = [0 .. total_epochs c - 1]"
    by (simp add: trace_fold executed_epochs_concat executed_epochs_Cons)
  then show ?thesis
    by (simp add: main_eq same_progress_fold same_progress_initial start_epoch_def)
       (simp add: initial_worker_def)
qed

subsection \<open>Ranks and devices\<close>

lemma upto_append_below:
  "(a::int) \<le> b \<Longrightarrow> b \<le> c \<Longrightarrow> [a .. b - 1] @ [b .. c - 1] = [a .. c - 1]"
proof (cases "b = c")
  case True
  then show ?thesis by simp
next
  case False
  assume "a \<le> b" "b \<le> c"
  with False have "a \<le> b" "b \<le> c - 1" by simp_all
  then show ?thesis
    by (rule upto_split1 [symmetric])
qed

lemma map_add_upto: "map (\<lambda>g. k + g) [a .. b] = [k + a .. k + (b::int)]"
proof (induction a b rule: upto.induct)
  case (1 i j)
  show ?case
  proof (cases "i \<le> j")
    case True
    then have "[i .. j] = i # [i + 1 .. j]" "[k + i .. k + j] = (k + i) # [k + i + 1 .. k + j]"
      by (simp_all add: upto_rec1)
    with 1 True show ?thesis
      by (simp add: add.assoc)
  next
    case False
    then show ?thesis by simp
  qed
qed

lemma spawned_ranks:
  "map snd (spawned c)
     = [exp_rank c * exp_ngpus_per_node c .. exp_rank c * exp_ngpus_per_node c
          + exp_ngpus_per_node c - 1]"
proof -
  have "map snd (spawned c)
      = map (\<lambda>g. exp_rank c * exp_ngpus_per_node c + g) [0 .. exp_ngpus_per_node c - 1]"
    by (simp add: spawned_def rank_of_def comp_def)
  then show ?thesis
    by (simp only: map_add_upto) (simp add: algebra_simps)
qed

lemma spawned_gpus: "map fst (spawned c) = [0 .. exp_ngpus_per_node c - 1]"
  by (simp add: spawned_def comp_def)

lemma ranks_of_nodes:
  assumes "0 \<le> exp_ngpus_per_node c"
  shows "concat (map (\<lambda>node. map snd (spawned (on_node c node))) [0 .. int n - 1])
         = [0 .. int n * exp_ngpus_per_node c - 1]"
proof (induction n)
  case 0
  then show ?case by simp
next
  case (Suc n)
  let ?d = "exp_ngpus_per_node c"
  have up: "[0 .. int (Suc n) - 1] = [0 .. int n - 1] @ [int n]"
    by (simp add: upto_rec2)
  have node: "map snd (spawned (on_node c (int n))) = [int n * ?d .. int (Suc n) * ?d - 1]"
    by (simp add: spawned_ranks on_node_def algebra_simps)
  have "[0 .. int n * ?d - 1] @ [int n * ?d .. int (Suc n) * ?d - 1] = [0 .. int (Suc n) * ?d - 1]"
    using assms by (intro upto_append_below) (simp_all add: algebra_simps)
  with Suc node up show ?case
    by simp
qed

lemma joined_as_append: "joined_as (xs @ ys) = joined_as xs @ joined_as ys"
  by (simp add: joined_as_def)

lemma joined_as_Cons: "joined_as (ev # tr) = event_join ev @ joined_as tr"
  by (simp add: joined_as_def)

lemma joined_as_epoch_events: "joined_as (epoch_events rank epoch) = []"
  by (simp add: joined_as_def epoch_events_def)

lemma joined_as_concat: "joined_as (concat (map (epoch_events rank) es)) = []"
proof (induction es)
  case Nil
  show ?case by (simp add: joined_as_def)
next
  case (Cons e es)
  then show ?case by (simp add: joined_as_append joined_as_epoch_events)
qed

lemma devices_bound_append: "devices_bound (xs @ ys) = devices_bound xs @ devices_bound ys"
  by (simp add: devices_bound_def)

lemma devices_bound_Cons: "devices_bound (ev # tr) = event_device ev @ devices_bound tr"
  by (simp add: devices_bound_def)

lemma devices_bound_epoch_events: "devices_bound (epoch_events rank epoch) = []"
  by (simp add: devices_bound_def epoch_events_def)

lemma devices_bound_concat: "devices_bound (concat (map (epoch_events rank) es)) = []"
proof (induction es)
  case Nil
  show ?case by (simp add: devices_bound_def)
next
  case (Cons e es)
  then show ?case by (simp add: devices_bound_append devices_bound_epoch_events)
qed

lemma rank_mod:
  "0 \<le> gpu \<Longrightarrow> gpu < exp_ngpus_per_node c \<Longrightarrow> rank_of c gpu mod exp_ngpus_per_node c = gpu"
  by (simp add: rank_of_def)

text \<open>Claim C9. A worker with local index \<open>gpu\<close> in \<open>[0, ngpus_per_node)\<close> has the rank
  \<open>node * ngpus_per_node + gpu\<close>, joins the group once, under that rank, and binds one
  device, whose index is the rank modulo \<open>ngpus_per_node\<close>; the launcher starts one worker
  for each local index; and when the nodes \<open>0, ..., nodes - 1\<close> are launched and the world
  size is \<open>nodes * ngpus_per_node\<close>, the ranks of all workers, node after node, are
  \<open>0, ..., world_size - 1\<close>, each once.\<close>

theorem ranks_contiguous_and_device_is_rank_mod:
  assumes "0 \<le> gpu" and "gpu < exp_ngpus_per_node c"
    and "0 \<le> nodes" and "exp_world_size c = nodes * exp_ngpus_per_node c"
  shows "rank_of c gpu = exp_rank c * exp_ngpus_per_node c + gpu
     \<and> (\<exists>w. main ext gpu c l fs = Inr w
          \<and> joined_as (trace w) = [(rank_of c gpu, exp_world_size c)]
          \<and> devices_bound (trace w) = [rank_of c gpu mod exp_ngpus_per_node c])
     \<and> map fst (spawned c) = [0 .. exp_ngpus_per_node c - 1]
     \<and> concat (map (\<lambda>node. map snd (spawned (on_node c node))) [0 .. nodes - 1])
         = [0 .. exp_world_size c - 1]"
proof -
  let ?w = "fold (epoch_body ext (rank_of c gpu)) [0 .. total_epochs c - 1]
              (initial_worker c gpu l fs)"
  have tr: "trace ?w = [InitProcessGroup (rank_of c gpu) (exp_world_size c), SetDevice gpu]
              @ concat (map (epoch_events (rank_of c gpu)) [0 .. total_epochs c - 1])"
    by (simp add: trace_fold)
  have "joined_as (trace ?w) = [(rank_of c gpu, exp_world_size c)]"
    unfolding tr by (simp add: joined_as_Cons joined_as_concat)
  moreover have "devices_bound (trace ?w) = [gpu]"
    unfolding tr by (simp add: devices_bound_Cons devices_bound_concat)
  moreover have "rank_of c gpu mod exp_ngpus_per_node c = gpu"
    using assms(1,2) by (rule rank_mod)
  ultimately have run: "\<exists>w. main ext gpu c l fs = Inr w
          \<and> joined_as (trace w) = [(rank_of c gpu, exp_world_size c)]
          \<and> devices_bound (trace w) = [rank_of c gpu mod exp_ngpus_per_node c]"
    by (simp add: main_eq)
  have d: "0 \<le> exp_ngpus_per_node c"
    using assms(1,2) by simp
  have "concat (map (\<lambda>node. map snd (spawned (on_node c node))) [0 .. int (nat nodes) - 1])
         = [0 .. int (nat nodes) * exp_ngpus_per_node c - 1]"
    using d by (rule ranks_of_nodes)
  with assms(3,4) have all: "concat (map (\<lambda>node. map snd (spawned (on_node c node)))
      [0 .. nodes - 1]) = [0 .. exp_world_size c - 1]"
    by simp
  show ?thesis
    using run all by (simp only: spawned_gpus simp_thms) (simp add: rank_of_def)
qed

theorem ranks_contiguous_and_device_is_rank_mod_witness:
  "(0::int) \<le> 1 \<and> 1 < exp_ngpus_per_node example_config \<and> (0::int) \<le> 1
   \<and> exp_world_size example_config = 1 * exp_ngpus_per_node example_config
   \<and> rank_of example_config 1 = 1
   \<and> (\<exists>w. main sample_collaborators 1 example_config 0 no_files = Inr w
          \<and> joined_as (trace w) = [(1, 2)]
          \<and> devices_bound (trace w) = [1])
   \<and> map fst (spawned example_config) = [0, 1]
   \<and> concat (map (\<lambda>node. map snd (spawned (on_node example_config node))) [0 .. 1 - 1])
         = [0, 1]"
proof -
  have h: "(0::int) \<le> 1" "1 < exp_ngpus_per_node example_config"
    "exp_world_size example_config = 1 * exp_ngpus_per_node example_config"
    by (simp_all add: example_config_def)
  have u: "[0 .. 1] = [0, 1::int]"
    by (simp add: upto_rec1)
  have v: "rank_of example_config 1 = 1" "exp_ngpus_per_node example_config = 2"
    "exp_world_size example_config = 2"
    by (simp_all add: rank_of_def example_config_def)
  show ?thesis
    using ranks_contiguous_and_device_is_rank_mod [OF h(1) h(2) h(1) h(3),
        of sample_collaborators 0 no_files]
    by (simp add: v u)
qed

subsection \<open>The workers that evaluate a split\<close>

lemma filter_eq_upto:
  "filter (\<lambda>r. r = k) [0 .. m - 1] = (if 0 \<le> k \<and> k < (m::int) then [k] else [])"
proof (cases "0 \<le> k \<and> k < m")
  case True
  then have "[0 .. m - 1] = [0 .. k - 1] @ k # [k + 1 .. m - 1]"
    by (intro upto_split3) simp_all
  moreover have "filter (\<lambda>r. r = k) [0 .. k - 1] = []" "filter (\<lambda>r. r = k) [k + 1 .. m - 1] = []"
    by (simp_all add: filter_empty_conv)
  ultimately show ?thesis
    using True by simp
next
  case False
  then have "filter (\<lambda>r. r = k) [0 .. m - 1] = []"
    by (auto simp add: filter_empty_conv)
  with False show ?thesis
    by simp
qed

lemma evaluators_upto:
  "evaluators Valid epoch [0 .. m - 1] = (if 1 \<le> m then [0] else [])"
  "evaluators Test epoch [0 .. m - 1] = (if 2 \<le> m then [1] else [])"
proof -
  have v: "((Valid, epoch) \<in> set (evaluated (epoch_events rank epoch))) = (rank = 0)" for rank
    by (simp add: evaluated_epoch_events)
  have t: "((Test, epoch) \<in> set (evaluated (epoch_events rank epoch))) = (rank = 1)" for rank
    by (simp add: evaluated_epoch_events)
  show "evaluators Valid epoch [0 .. m - 1] = (if 1 \<le> m then [0] else [])"
    unfolding evaluators_def v by (simp only: filter_eq_upto) auto
  show "evaluators Test epoch [0 .. m - 1] = (if 2 \<le> m then [1] else [])"
    unfolding evaluators_def t by (simp only: filter_eq_upto) auto
qed

lemma launched_ranks_upto:
  assumes "0 \<le> nodes" and "0 \<le> exp_ngpus_per_node c"
  shows "launched_ranks c nodes = [0 .. nodes * exp_ngpus_per_node c - 1]"
proof -
  have "concat (map (\<lambda>node. map snd (spawned (on_node c node))) [0 .. int (nat nodes) - 1])
         = [0 .. int (nat nodes) * exp_ngpus_per_node c - 1]"
    using assms(2) by (rule ranks_of_nodes)
  with assms(1) show ?thesis
    by (simp add: launched_ranks_def)
qed

lemma evaluated_Cons: "evaluated (ev # tr) = event_evaluation ev @ evaluated tr"
  by (simp add: evaluated_def)

lemma single_worker_facts:
  "total_epochs single_worker_config = 1" "rank_of single_worker_config 0 = 0"
  "exp_world_size single_worker_config = 1" "exp_ngpus_per_node single_worker_config = 1"
  by (simp_all add: single_worker_config_def total_epochs_def ft_sc_epochs_def ft_xe_epochs_def
      fr_sc_epochs_def fr_xe_epochs_def rank_of_def)

text \<open>Claim C5 says that each split is evaluated by exactly one rank, \<^verbatim>\<open>'test'\<close> by another
  rank than \<^verbatim>\<open>'valid'\<close>. In a launch of one worker (one node, one device, world size 1)
  it is not: the only worker has rank 0, it runs epoch 0 and evaluates \<^verbatim>\<open>'valid'\<close> there, and
  no worker of the launch evaluates \<^verbatim>\<open>'test'\<close>.\<close>

theorem single_worker_launch_never_evaluates_test:
  "exp_world_size single_worker_config = 1
   \<and> spawned single_worker_config = [(0, 0)]
   \<and> launched_ranks single_worker_config 1 = [0]
   \<and> \<not> isl (main sample_collaborators 0 single_worker_config 0 no_files)
   \<and> executed_epochs (trace (projr (main sample_collaborators 0 single_worker_config 0 no_files)))
       = [0]
   \<and> evaluated (trace (projr (main sample_collaborators 0 single_worker_config 0 no_files)))
       = [(Valid, 0)]
   \<and> evaluators Test 0 (launched_ranks single_worker_config 1) = []"
proof -
  have u: "[0 .. 0] = [0::int]"
    by (simp add: upto_rec1)
  have s: "spawned single_worker_config = [(0, 0)]"
    by (simp add: spawned_def single_worker_facts u)
  have l: "launched_ranks single_worker_config 1 = [0]"
    by (simp add: launched_ranks_def u s spawned_def on_node_def rank_of_def
        single_worker_config_def)
  have e: "evaluators Test 0 [0] = []"
    by (simp add: evaluators_def evaluated_epoch_events)
  have x: "executed_epochs (trace (fold (epoch_body sample_collaborators 0) [0]
             (initial_worker single_worker_config 0 0 no_files))) = [0]"
    by (simp add: trace_epoch_body executed_epochs_Cons)
  have v: "evaluated (trace (fold (epoch_body sample_collaborators 0) [0]
             (initial_worker single_worker_config 0 0 no_files))) = [(Valid, 0)]"
    by (simp add: trace_epoch_body evaluated_Cons evaluated_epoch_events)
  show ?thesis
    using x v by (simp add: main_eq single_worker_facts u s l e)
qed

text \<open>Claim C5, amended. In every epoch the evaluation of a split is fixed by the rank
  alone: a worker evaluates \<^verbatim>\<open>'valid'\<close> exactly if its rank is 0 and \<^verbatim>\<open>'test'\<close> exactly if its
  rank is 1, so no split is evaluated by two ranks and a worker of any other rank
  evaluates nothing; for every rank the last call of the epoch is the barrier, and over a
  run a rank reaches one barrier for each epoch. Among the workers of a launch, whose
  ranks are \<open>0, ..., world_size - 1\<close>, exactly one evaluates \<^verbatim>\<open>'valid'\<close> when the world size
  is at least 1, and exactly one, another, evaluates \<^verbatim>\<open>'test'\<close> when the world size is at
  least 2; with a world size of 1 none evaluates \<^verbatim>\<open>'test'\<close>.\<close>

theorem evaluation_split_by_rank:
  "trace (epoch_body ext rank epoch w0) = trace w0 @ epoch_events rank epoch
   \<and> evaluated (epoch_events rank epoch)
       = (if rank = 0 then [(Valid, epoch)] else if rank = 1 then [(Test, epoch)] else [])
   \<and> ((Valid, epoch) \<in> set (evaluated (epoch_events rank epoch))) = (rank = 0)
   \<and> ((Test, epoch) \<in> set (evaluated (epoch_events rank epoch))) = (rank = 1)
   \<and> last (epoch_events rank epoch) = Barrier
   \<and> barriers (epoch_events rank epoch) = 1
   \<and> (\<exists>w. main ext gpu c l fs = Inr w
        \<and> evaluated (trace w)
            = (if rank_of c gpu = 0 then map (Pair Valid) [start_epoch .. total_epochs c - 1]
               else if rank_of c gpu = 1 then map (Pair Test) [start_epoch .. total_epochs c - 1]
               else [])
        \<and> barriers (trace w) = length [start_epoch .. total_epochs c - 1])
   \<and> (0 \<le> nodes \<and> 0 \<le> exp_ngpus_per_node c
        \<and> exp_world_size c = nodes * exp_ngpus_per_node c \<longrightarrow>
        launched_ranks c nodes = [0 .. exp_world_size c - 1]
        \<and> evaluators Valid epoch (launched_ranks c nodes)
            = (if 1 \<le> exp_world_size c then [0] else [])
        \<and> evaluators Test epoch (launched_ranks c nodes)
            = (if 2 \<le> exp_world_size c then [1] else []))"
proof -
  have init: "evaluated (trace (initial_worker c gpu l fs)) = []"
       "barriers (trace (initial_worker c gpu l fs)) = 0"
    by (simp_all add: evaluated_def barriers_def)
  have run: "evaluated (trace (fold (epoch_body ext (rank_of c gpu)) [0 .. total_epochs c - 1]
                 (initial_worker c gpu l fs)))
            = (if rank_of c gpu = 0 then map (Pair Valid) [0 .. total_epochs c - 1]
               else if rank_of c gpu = 1 then map (Pair Test) [0 .. total_epochs c - 1]
               else [])"
    by (simp only: trace_fold evaluated_append evaluated_concat init append_Nil)
  have bar: "barriers (trace (fold (epoch_body ext (rank_of c gpu)) [0 .. total_epochs c - 1]
                 (initial_worker c gpu l fs))) = length [0 .. total_epochs c - 1]"
    by (simp only: trace_fold barriers_append barriers_concat init add_0)
  have ev: "evaluated (epoch_events rank epoch)
       = (if rank = 0 then [(Valid, epoch)] else if rank = 1 then [(Test, epoch)] else [])"
    by (rule evaluated_epoch_events)
  have mem: "((Valid, epoch) \<in> set (evaluated (epoch_events rank epoch))) = (rank = 0)"
     "((Test, epoch) \<in> set (evaluated (epoch_events rank epoch))) = (rank = 1)"
    by (simp_all add: ev)
  have first: "trace (epoch_body ext rank epoch w0) = trace w0 @ epoch_events rank epoch
   \<and> evaluated (epoch_events rank epoch)
       = (if rank = 0 then [(Valid, epoch)] else if rank = 1 then [(Test, epoch)] else [])
   \<and> ((Valid, epoch) \<in> set (evaluated (epoch_events rank epoch))) = (rank = 0)
   \<and> ((Test, epoch) \<in> set (evaluated (epoch_events rank epoch))) = (rank = 1)
   \<and> last (epoch_events rank epoch) = Barrier
   \<and> barriers (epoch_events rank epoch) = 1
   \<and> (\<exists>w. main ext gpu c l fs = Inr w
        \<and> evaluated (trace w)
            = (if rank_of c gpu = 0 then map (Pair Valid) [start_epoch .. total_epochs c - 1]
               else if rank_of c gpu = 1 then map (Pair Test) [start_epoch .. total_epochs c - 1]
               else [])
        \<and> barriers (trace w) = length [start_epoch .. total_epochs c - 1])"
    using run bar ev mem
    by (simp only: main_eq trace_epoch_body last_epoch_events barriers_epoch_events
        start_epoch_def) simp
  have launch: "0 \<le> nodes \<and> 0 \<le> exp_ngpus_per_node c
        \<and> exp_world_size c = nodes * exp_ngpus_per_node c \<longrightarrow>
        launched_ranks c nodes = [0 .. exp_world_size c - 1]
        \<and> evaluators Valid epoch (launched_ranks c nodes)
            = (if 1 \<le> exp_world_size c then [0] else [])
        \<and> evaluators Test epoch (launched_ranks c nodes)
            = (if 2 \<le> exp_world_size c then [1] else [])"
  proof (intro impI, elim conjE)
    assume a: "0 \<le> nodes" "0 \<le> exp_ngpus_per_node c"
      "exp_world_size c = nodes * exp_ngpus_per_node c"
    have "launched_ranks c nodes = [0 .. exp_world_size c - 1]"
      using launched_ranks_upto [OF a(1) a(2)] a(3) by simp
    then show "launched_ranks c nodes = [0 .. exp_world_size c - 1]
        \<and> evaluators Valid epoch (launched_ranks c nodes)
            = (if 1 \<le> exp_world_size c then [0] else [])
        \<and> evaluators Test epoch (launched_ranks c nodes)
            = (if 2 \<le> exp_world_size c then [1] else [])"
      by (simp only: evaluators_upto simp_thms)
  qed
  from first launch show ?thesis
    by (intro conjI) (elim conjE, assumption)+
qed

theorem evaluation_split_by_rank_witness:
  "(0::int) \<le> 1 \<and> 0 \<le> exp_ngpus_per_node example_config
   \<and> exp_world_size example_config = 1 * exp_ngpus_per_node example_config
   \<and> launched_ranks example_config 1 = [0 .. exp_world_size example_config - 1]
   \<and> evaluators Valid 3 (launched_ranks example_config 1) = [0]
   \<and> evaluators Test 3 (launched_ranks example_config 1) = [1]"
proof -
  have h: "(0::int) \<le> 1 \<and> 0 \<le> exp_ngpus_per_node example_config
        \<and> exp_world_size example_config = 1 * exp_ngpus_per_node example_config"
    by (simp add: example_config_def)
  have w: "exp_world_size example_config = 2"
    by (simp add: example_config_def)
  have "(0::int) \<le> 1 \<and> 0 \<le> exp_ngpus_per_node example_config
        \<and> exp_world_size example_config = 1 * exp_ngpus_per_node example_config \<longrightarrow>
        launched_ranks example_config 1 = [0 .. exp_world_size example_config - 1]
        \<and> evaluators Valid 3 (launched_ranks example_config 1)
            = (if 1 \<le> exp_world_size example_config then [0] else [])
        \<and> evaluators Test 3 (launched_ranks example_config 1)
            = (if 2 \<le> exp_world_size example_config then [1] else [])"
    using evaluation_split_by_rank [of sample_collaborators 0 3
        "initial_worker example_config 0 0 no_files" 0 example_config 0 no_files 1]
    by (elim conjE)
  with h have "launched_ranks example_config 1 = [0 .. exp_world_size example_config - 1]
        \<and> evaluators Valid 3 (launched_ranks example_config 1)
            = (if 1 \<le> exp_world_size example_config then [0] else [])
        \<and> evaluators Test 3 (launched_ranks example_config 1)
            = (if 2 \<le> exp_world_size example_config then [1] else [])"
    by (rule rev_mp)
  with h show ?thesis
    by (auto simp add: w)
qed


subsection \<open>File names\<close>

lemma of_char_digit_char: "d < 10 \<Longrightarrow> (of_char (digit_char d) :: nat) = 48 + d"
  by (simp add: digit_char_def)

lemma is_digit_digit_char: "d < 10 \<Longrightarrow> is_digit (digit_char d)"
  by (simp add: is_digit_def of_char_digit_char)

lemma nat_of_str_snoc:
  "nat_of_str (s @ [ch]) = 10 * nat_of_str s + (of_char ch - 48)"
  by (simp add: nat_of_str_def)

lemma nat_of_str_str_nat: "nat_of_str (str_nat n) = n"
proof (induction n rule: str_nat.induct)
  case (1 n)
  show ?case
  proof (cases "n < 10")
    case True
    then show ?thesis
      by (subst str_nat.simps) (simp add: nat_of_str_def of_char_digit_char)
  next
    case False
    with 1 have "nat_of_str (str_nat (n div 10)) = n div 10"
      by simp
    with False show ?thesis
      by (subst str_nat.simps) (simp add: nat_of_str_snoc of_char_digit_char)
  qed
qed

lemma str_nat_inject: "(str_nat m = str_nat n) = (m = n)"
  by (metis nat_of_str_str_nat)

lemma str_nat_digits: "ch \<in> set (str_nat n) \<Longrightarrow> is_digit ch"
proof (induction n rule: str_nat.induct)
  case (1 n)
  show ?case
  proof (cases "n < 10")
    case True
    with 1(2) show ?thesis
      by (subst (asm) str_nat.simps) (simp add: is_digit_digit_char)
  next
    case False
    with 1 show ?thesis
      by (subst (asm) (2) str_nat.simps) (auto simp: is_digit_digit_char)
  qed
qed

lemma str_nat_not_Nil: "str_nat n \<noteq> []"
  by (subst str_nat.simps) simp

lemma str_int_not_Nil: "str_int i \<noteq> []"
  by (simp add: str_int_def str_nat_not_Nil)

lemma hd_str_int: "hd (str_int i) = CHR ''-'' \<or> is_digit (hd (str_int i))"
  using str_nat_digits [of "hd (str_nat (nat i))" "nat i"] str_nat_not_Nil [of "nat i"]
  by (simp add: str_int_def)

lemma str_int_inject: "(str_int i = str_int j) = (i = j)"
proof -
  have minus: "\<not> is_digit CHR ''-''"
    by (simp add: is_digit_def)
  have neq: "CHR ''-'' # str_nat m \<noteq> str_nat n" for m n
  proof
    assume "CHR ''-'' # str_nat m = str_nat n"
    then have "CHR ''-'' \<in> set (str_nat n)"
      by (metis list.set_intros(1))
    then show False
      using minus str_nat_digits by blast
  qed
  show ?thesis
  proof (cases "i < 0"; cases "j < 0")
    assume "i < 0" "j < 0"
    then show ?thesis by (auto simp add: str_int_def str_nat_inject)
  next
    assume "i < 0" "\<not> j < 0"
    then show ?thesis using neq by (auto simp add: str_int_def)
  next
    assume "\<not> i < 0" "j < 0"
    then show ?thesis using neq [symmetric] by (auto simp add: str_int_def)
  next
    assume "\<not> i < 0" "\<not> j < 0"
    then show ?thesis by (auto simp add: str_int_def str_nat_inject)
  qed
qed

lemma milestone_name_inject: "(milestone_name j = milestone_name k) = (j = k)"
  by (simp add: milestone_name_def str_int_inject)

lemma rolling_name_eq: "rolling_name e = ''checkpoint_ft_xe.pth''"
  by (simp add: rolling_name_def phase_def)

lemma milestone_not_rolling: "milestone_name k \<noteq> rolling_name e"
proof
  assume "milestone_name k = rolling_name e"
  then have "str_int k @ ''.pth'' = ''ft_xe.pth''"
    by (simp add: milestone_name_def rolling_name_eq)
  then have "hd (str_int k) = CHR ''f''"
    using str_int_not_Nil [of k] by (cases "str_int k") simp_all
  moreover have "\<not> is_digit CHR ''f''" "CHR ''f'' \<noteq> CHR ''-''"
    by (simp_all add: is_digit_def)
  ultimately show False
    using hd_str_int [of k] by auto
qed

subsection \<open>The files after an epoch and after a run\<close>

lemma learner_epoch_body:
  "learner (epoch_body ext rank epoch w) = train_xe ext epoch rank (learner w)"
  by (simp add: epoch_body_def barrier_step_def checkpoint_step_def save_as_def
      eval_test_step_def eval_valid_step_def train_step_def Let_def)

lemma files_epoch_body:
  "files (epoch_body ext rank epoch w)
     = (if rank = 0
        then if 15 \<le> epoch
             then (files w)(rolling_name epoch \<mapsto> written (learner (epoch_body ext rank epoch w)) epoch,
                            milestone_name epoch \<mapsto> written (learner (epoch_body ext rank epoch w)) epoch)
             else (files w)(rolling_name epoch \<mapsto> written (learner (epoch_body ext rank epoch w)) epoch)
        else files w)"
  by (simp add: epoch_body_def barrier_step_def checkpoint_step_def save_as_def
      eval_test_step_def eval_valid_step_def train_step_def Let_def save_checkpoint_def
      written_def)

lemma files_other_rank: "rank \<noteq> 0 \<Longrightarrow> files (fold (epoch_body ext rank) es w) = files w"
  by (induction es arbitrary: w) (simp_all add: files_epoch_body)

lemma files_rolling_epoch_body:
  "files (epoch_body ext rank epoch w) (rolling_name e)
     = (if rank = 0 then Some (written (learner (epoch_body ext rank epoch w)) epoch)
        else files w (rolling_name e))"
  using milestone_not_rolling [of epoch e]
  by (simp add: files_epoch_body rolling_name_eq)

lemma files_milestone_epoch_body:
  "files (epoch_body ext rank epoch w) (milestone_name k)
     = (if rank = 0 \<and> 15 \<le> epoch \<and> epoch = k
        then Some (written (learner (epoch_body ext rank epoch w)) epoch)
        else files w (milestone_name k))"
  using milestone_not_rolling [of k epoch]
  by (simp add: files_epoch_body milestone_name_inject)

lemma files_rolling_fold:
  "files (fold (epoch_body ext rank) es w) (rolling_name e)
     = (if rank = 0 \<and> es \<noteq> []
        then Some (written (learner (fold (epoch_body ext rank) es w)) (last es))
        else files w (rolling_name e))"
  by (induction es rule: rev_induct) (simp_all add: files_rolling_epoch_body)

lemma files_milestone_kept:
  "k \<notin> set es \<or> k < 15 \<or> rank \<noteq> 0 \<Longrightarrow>
   files (fold (epoch_body ext rank) es w) (milestone_name k) = files w (milestone_name k)"
  by (induction es arbitrary: w) (auto simp add: files_milestone_epoch_body)

lemma fold_upto_split:
  assumes "0 \<le> k" and "k < n"
  shows "fold f [0 .. n - 1] w = fold f [k + 1 .. n - 1] (f k (fold f [0 .. k - 1] w))"
proof -
  have "[0 .. n - 1] = [0 .. k - 1] @ k # [k + 1 .. n - 1]"
    using assms by (intro upto_split3) simp_all
  then show ?thesis
    by simp
qed

lemma fold_upto_last:
  assumes "0 \<le> k"
  shows "fold f [0 .. k] w = f k (fold f [0 .. k - 1] w)"
proof -
  have "[0 .. k] = [0 .. k - 1] @ [k]"
    using assms by (simp add: upto_rec2)
  then show ?thesis
    by simp
qed

lemma files_milestone_run:
  "files (fold (epoch_body ext rank) [0 .. n - 1] w) (milestone_name k)
     = (if rank = 0 \<and> 15 \<le> k \<and> k < n
        then Some (written (learner (fold (epoch_body ext rank) [0 .. k] w)) k)
        else files w (milestone_name k))"
proof (cases "rank = 0 \<and> 15 \<le> k \<and> k < n")
  case True
  then have k: "0 \<le> k" "k < n" by simp_all
  have "k \<notin> set [k + 1 .. n - 1]"
    by simp
  then have "files (fold (epoch_body ext rank) [k + 1 .. n - 1]
               (fold (epoch_body ext rank) [0 .. k] w)) (milestone_name k)
           = files (fold (epoch_body ext rank) [0 .. k] w) (milestone_name k)"
    by (intro files_milestone_kept) simp
  then show ?thesis
    using True by (simp add: fold_upto_split [OF k] fold_upto_last [OF k(1)]
        files_milestone_epoch_body)
next
  case False
  then have "k \<notin> set [0 .. n - 1] \<or> k < 15 \<or> rank \<noteq> 0"
    by auto
  then show ?thesis
    using False by (simp only: files_milestone_kept if_False)
qed

lemma saves_Nil [simp]: "saves [] = []"
  by (simp add: saves_def)

lemma saves_Cons: "saves (ev # tr) = event_save ev @ saves tr"
  by (simp add: saves_def)

lemma saves_append: "saves (xs @ ys) = saves xs @ saves ys"
  by (simp add: saves_def)

lemma saves_epoch_events:
  "saves (epoch_events rank epoch) = (if rank = 0 then epoch_saves epoch else [])"
  by (simp add: saves_def epoch_events_def epoch_saves_def rolling_name_eq)

lemma saves_concat:
  "saves (concat (map (epoch_events rank) es))
     = (if rank = 0 then concat (map epoch_saves es) else [])"
  by (induction es) (simp_all add: saves_append saves_epoch_events)

lemma last_upto: "0 < n \<Longrightarrow> last [0 .. n - 1] = n - (1::int)"
  by (simp add: upto_rec2)

lemma saves_main:
  "saves (trace (fold (epoch_body ext rank) es (initial_worker c gpu l fs)))
     = (if rank = 0 then concat (map epoch_saves es) else [])"
  by (simp add: trace_fold saves_Cons saves_concat)

lemma files_initial [simp]: "files (initial_worker c gpu l fs) = fs"
  by (simp add: initial_worker_def)

lemma upto_nonempty: "([0 .. n - 1] \<noteq> []) = (0 < (n::int))"
  by auto

lemma milestone_epochs_epoch_saves:
  "map snd (filter (\<lambda>p. fst p = milestone_name (snd p)) (epoch_saves e))
     = (if 15 \<le> e then [e] else [])"
  using milestone_not_rolling [of e e] by (auto simp add: epoch_saves_def)

lemma milestone_epochs_concat:
  "map snd (filter (\<lambda>p. fst p = milestone_name (snd p)) (concat (map epoch_saves es)))
     = filter (\<lambda>e. 15 \<le> e) es"
  by (induction es) (simp_all add: milestone_epochs_epoch_saves)

lemma filter_ge_upto:
  assumes "0 \<le> k"
  shows "filter (\<lambda>e. k \<le> e) [0 .. m] = [k .. (m::int)]"
proof (cases "k \<le> m")
  case True
  with assms have "[0 .. m] = [0 .. k - 1] @ [k .. m]"
    by (intro upto_split1) simp_all
  moreover have "filter (\<lambda>e. k \<le> e) [0 .. k - 1] = []"
    by (simp add: filter_empty_conv)
  moreover have "filter (\<lambda>e. k \<le> e) [k .. m] = [k .. m]"
    by (simp add: filter_id_conv)
  ultimately show ?thesis
    by simp
next
  case False
  then have "filter (\<lambda>e. k \<le> e) [0 .. m] = []"
    by (auto simp add: filter_empty_conv)
  with False show ?thesis
    by simp
qed

lemma milestone_epochs_main:
  "milestone_epochs (trace (fold (epoch_body ext rank) [0 .. n - 1] (initial_worker c gpu l fs)))
     = (if rank = 0 then [15 .. n - 1] else [])"
  by (simp add: milestone_epochs_def saves_main milestone_epochs_concat filter_ge_upto)

lemma other_config_facts:
  "total_epochs other_config = 18" "rank_of other_config 0 = 0"
  by (simp_all add: other_config_def total_epochs_def ft_sc_epochs_def ft_xe_epochs_def
      fr_sc_epochs_def fr_xe_epochs_def rank_of_def)

lemma example_ranks: "rank_of example_config 0 = 0" "rank_of example_config 1 = 1"
  by (simp_all add: rank_of_def example_config_def)

text \<open>Claim C7 says that the epoch from which a checkpoint of its own is kept is a
  configured threshold. It is not configured: two configurations that differ in every
  length, in the seed, in the devices of a node and in the world size both keep such
  checkpoints from epoch 15 on, the literal of line 126.\<close>

theorem milestones_from_15_in_unlike_configurations:
  "exp_ngpus_per_node example_config \<noteq> exp_ngpus_per_node other_config
   \<and> exp_world_size example_config \<noteq> exp_world_size other_config
   \<and> exp_seed example_config \<noteq> exp_seed other_config
   \<and> freezing_xe_epochs example_config \<noteq> freezing_xe_epochs other_config
   \<and> freezing_sc_epochs example_config \<noteq> freezing_sc_epochs other_config
   \<and> finetune_xe_epochs example_config \<noteq> finetune_xe_epochs other_config
   \<and> finetune_sc_epochs example_config \<noteq> finetune_sc_epochs other_config
   \<and> \<not> isl (main sample_collaborators 0 example_config 0 no_files)
   \<and> \<not> isl (main sample_collaborators 0 other_config 0 no_files)
   \<and> milestone_epochs (trace (projr (main sample_collaborators 0 example_config 0 no_files)))
       = [15 .. 39]
   \<and> milestone_epochs (trace (projr (main sample_collaborators 0 other_config 0 no_files)))
       = [15, 16, 17]"
proof -
  have d: "exp_ngpus_per_node example_config \<noteq> exp_ngpus_per_node other_config
   \<and> exp_world_size example_config \<noteq> exp_world_size other_config
   \<and> exp_seed example_config \<noteq> exp_seed other_config
   \<and> freezing_xe_epochs example_config \<noteq> freezing_xe_epochs other_config
   \<and> freezing_sc_epochs example_config \<noteq> freezing_sc_epochs other_config
   \<and> finetune_xe_epochs example_config \<noteq> finetune_xe_epochs other_config
   \<and> finetune_sc_epochs example_config \<noteq> finetune_sc_epochs other_config"
    by (simp add: example_config_def other_config_def)
  have u: "[15 .. 17] = [15, 16, 17::int]"
    by (simp add: upto_rec1)
  have a: "milestone_epochs (trace (projr (main sample_collaborators 0 example_config 0 no_files)))
       = [15 .. 39]"
    using milestone_epochs_main [of sample_collaborators 0 40 example_config 0 0 no_files]
    by (simp add: main_eq example_ranks example_boundaries)
  have b: "milestone_epochs (trace (projr (main sample_collaborators 0 other_config 0 no_files)))
       = [15, 16, 17]"
    using milestone_epochs_main [of sample_collaborators 0 18 other_config 0 0 no_files]
    by (simp add: main_eq other_config_facts u)
  from d a b show ?thesis
    by (simp add: main_eq)
qed

text \<open>Claim C7, amended. Only rank 0 saves checkpoints: a worker of any other rank makes no
  call of \<^verbatim>\<open>save_checkpoint\<close> and leaves the files as they were. Rank 0 saves, in every
  epoch, the rolling checkpoint \<^verbatim>\<open>checkpoint_ft_xe.pth\<close>, named after the phase label, and in
  every epoch from 15 on, a constant of the code and the same for every configuration,
  also the checkpoint named after the epoch number. After the run the rolling file holds
  the last epoch, each later epoch having replaced the one before; the file of every
  epoch \<open>k\<close> from 15 on still holds epoch \<open>k\<close>, since the names of different epochs differ
  and none is the rolling name.\<close>

theorem only_rank_zero_writes_checkpoints:
  "\<exists>w. main ext gpu c l fs = Inr w
     \<and> saves (trace w)
         = (if rank_of c gpu = 0 then concat (map epoch_saves [start_epoch .. total_epochs c - 1])
            else [])
     \<and> (rank_of c gpu \<noteq> 0 \<longrightarrow> files w = fs)
     \<and> map_option ck_epoch (files w (rolling_name e))
         = (if rank_of c gpu = 0 \<and> 0 < total_epochs c then Some (total_epochs c - 1)
            else map_option ck_epoch (fs (rolling_name e)))
     \<and> map_option ck_epoch (files w (milestone_name k))
         = (if rank_of c gpu = 0 \<and> 15 \<le> k \<and> k < total_epochs c then Some k
            else map_option ck_epoch (fs (milestone_name k)))
     \<and> epoch_saves e = (rolling_name e, e) # (if 15 \<le> e then [(milestone_name e, e)] else [])
     \<and> rolling_name e = ''checkpoint_ft_xe.pth''
     \<and> milestone_name k = ''checkpoint_'' @ str_int k @ ''.pth''
     \<and> (milestone_name j = milestone_name k) = (j = k)
     \<and> milestone_name k \<noteq> rolling_name e
     \<and> milestone_epochs (trace w) = (if rank_of c gpu = 0 then [15 .. total_epochs c - 1] else [])"
proof -
  let ?w = "fold (epoch_body ext (rank_of c gpu)) [0 .. total_epochs c - 1]
              (initial_worker c gpu l fs)"
  have s: "saves (trace ?w)
         = (if rank_of c gpu = 0 then concat (map epoch_saves [start_epoch .. total_epochs c - 1])
            else [])"
    by (simp only: saves_main start_epoch_def)
  have o: "rank_of c gpu \<noteq> 0 \<longrightarrow> files ?w = fs"
    by (simp add: files_other_rank)
  have r: "map_option ck_epoch (files ?w (rolling_name e))
         = (if rank_of c gpu = 0 \<and> 0 < total_epochs c then Some (total_epochs c - 1)
            else map_option ck_epoch (fs (rolling_name e)))"
    by (simp add: files_rolling_fold upto_nonempty last_upto written_def)
  have m: "map_option ck_epoch (files ?w (milestone_name k))
         = (if rank_of c gpu = 0 \<and> 15 \<le> k \<and> k < total_epochs c then Some k
            else map_option ck_epoch (fs (milestone_name k)))"
    by (simp add: files_milestone_run written_def)
  have n: "epoch_saves e = (rolling_name e, e) # (if 15 \<le> e then [(milestone_name e, e)] else [])"
    "rolling_name e = ''checkpoint_ft_xe.pth''"
    "milestone_name k = ''checkpoint_'' @ str_int k @ ''.pth''"
    "(milestone_name j = milestone_name k) = (j = k)"
    "milestone_name k \<noteq> rolling_name e"
    by (simp_all only: epoch_saves_def rolling_name_eq [of e, symmetric] milestone_name_def [of k, symmetric]
        milestone_name_inject milestone_not_rolling not_False_eq_True)
  have t: "milestone_epochs (trace ?w)
         = (if rank_of c gpu = 0 then [15 .. total_epochs c - 1] else [])"
    by (rule milestone_epochs_main)
  from s o r m n t show ?thesis
    by (simp only: main_eq sum.inject ex_simps simp_thms)
qed

lemma milestone_name_16: "milestone_name 16 = ''checkpoint_16.pth''"
  by code_simp

theorem only_rank_zero_writes_checkpoints_witness:
  "(\<exists>w. main sample_collaborators 1 example_config 0 no_files = Inr w
      \<and> rank_of example_config 1 \<noteq> 0
      \<and> saves (trace w) = [] \<and> files w = no_files)
   \<and> (\<exists>w. main sample_collaborators 0 example_config 0 no_files = Inr w
      \<and> map_option ck_epoch (files w ''checkpoint_ft_xe.pth'') = Some 39
      \<and> map_option ck_epoch (files w ''checkpoint_16.pth'') = Some 16)"
proof -
  have a: "\<exists>w. main sample_collaborators 1 example_config 0 no_files = Inr w
      \<and> rank_of example_config 1 \<noteq> 0
      \<and> saves (trace w) = [] \<and> files w = no_files"
    using only_rank_zero_writes_checkpoints
      [of sample_collaborators 1 example_config 0 no_files 0 16 16]
    by (auto simp add: example_ranks)
  have b: "\<exists>w. main sample_collaborators 0 example_config 0 no_files = Inr w
      \<and> map_option ck_epoch (files w ''checkpoint_ft_xe.pth'') = Some 39
      \<and> map_option ck_epoch (files w ''checkpoint_16.pth'') = Some 16"
    using only_rank_zero_writes_checkpoints
      [of sample_collaborators 0 example_config 0 no_files 0 16 16]
    by (auto simp add: example_ranks example_boundaries milestone_name_16 rolling_name_eq)
  from a b show ?thesis
    by (rule conjI)
qed

lemma one_epoch_facts:
  "total_epochs one_epoch_config = 1" "rank_of one_epoch_config 0 = 0"
  by (simp_all add: one_epoch_config_def total_epochs_def ft_sc_epochs_def ft_xe_epochs_def
      fr_sc_epochs_def fr_xe_epochs_def rank_of_def)

text \<open>Claim C8 says that the checkpoint written at epoch \<open>k\<close> records the best scores
  tracked at epoch \<open>k\<close>. It does not: in a run of one epoch whose validation score is one
  half, rank 0 ends epoch 0 with the best validation score one half, and the checkpoint it
  wrote at epoch 0, read back, holds the best scores \<open>[0, 0]\<close>.\<close>

theorem checkpoint_records_zero_best_scores:
  "\<not> isl (main sample_collaborators 0 one_epoch_config 0 no_files)
   \<and> executed_epochs (trace (projr (main sample_collaborators 0 one_epoch_config 0 no_files)))
       = [0]
   \<and> best_cider_val (projr (main sample_collaborators 0 one_epoch_config 0 no_files)) = 1 / 2
   \<and> map_option ck_epoch (restore ''checkpoint_ft_xe.pth''
         (files (projr (main sample_collaborators 0 one_epoch_config 0 no_files)))) = Some 0
   \<and> map_option ck_best_ciders (restore ''checkpoint_ft_xe.pth''
         (files (projr (main sample_collaborators 0 one_epoch_config 0 no_files)))) = Some [0, 0]"
proof -
  have u: "[0 .. 0] = [0::int]"
    by (simp add: upto_rec1)
  have f: "files (fold (epoch_body sample_collaborators 0) [0]
             (initial_worker one_epoch_config 0 0 no_files)) (rolling_name 0)
         = Some (written (learner (fold (epoch_body sample_collaborators 0) [0]
             (initial_worker one_epoch_config 0 0 no_files))) 0)"
    by (simp only: files_rolling_fold) simp
  have b: "best_cider_val (fold (epoch_body sample_collaborators 0) [0]
             (initial_worker one_epoch_config 0 0 no_files)) = 1 / 2"
    by (simp only: best_cider_val_fold)
       (simp add: track_best_def evaluate_metrics_def initial_worker_def
          sample_collaborators_def half_score_def)
  have e: "executed_epochs (trace (fold (epoch_body sample_collaborators 0) [0]
             (initial_worker one_epoch_config 0 0 no_files))) = [0]"
    by (simp add: trace_epoch_body executed_epochs_Cons)
  show ?thesis
    using f b e
    by (simp add: main_eq one_epoch_facts u restore_def rolling_name_eq written_def)
qed

text \<open>Claim C8, amended. The checkpoint that rank 0 writes at epoch \<open>k\<close>, read back, gives
  the epoch index \<open>k\<close> and the learner (model, optimizers and scheduler, so the optimizer's
  step count) as it was when saved, with no scores and with the best scores \<open>[0, 0]\<close>,
  whatever the best scores tracked are. After a run, the rolling file gives the last epoch
  and the final learner, and the file of an epoch \<open>k\<close> from 15 on gives epoch \<open>k\<close> and the
  learner as it was after epoch \<open>k\<close>.\<close>

theorem checkpoint_round_trip_without_best_scores:
  "restore (rolling_name k) (files (epoch_body ext 0 k w0))
     = Some (written (learner (epoch_body ext 0 k w0)) k)
   \<and> restore (milestone_name k) (files (epoch_body ext 0 k w0))
     = (if 15 \<le> k then Some (written (learner (epoch_body ext 0 k w0)) k)
        else restore (milestone_name k) (files w0))
   \<and> ck_epoch (written l' k) = k \<and> ck_learner (written l' k) = l'
   \<and> ck_scores (written l' k) = [] \<and> ck_best_ciders (written l' k) = [0, 0]
   \<and> (\<exists>w. main ext gpu c l fs = Inr w
        \<and> restore (rolling_name k) (files w)
            = (if rank_of c gpu = 0 \<and> 0 < total_epochs c
               then Some (written (learner w) (total_epochs c - 1))
               else restore (rolling_name k) fs)
        \<and> restore (milestone_name k) (files w)
            = (if rank_of c gpu = 0 \<and> 15 \<le> k \<and> k < total_epochs c
               then Some (written (learner (fold (epoch_body ext 0) [start_epoch .. k]
                                     (initial_worker c gpu l fs))) k)
               else restore (milestone_name k) fs))"
proof -
  let ?w = "fold (epoch_body ext (rank_of c gpu)) [0 .. total_epochs c - 1]
              (initial_worker c gpu l fs)"
  have a: "restore (rolling_name k) (files (epoch_body ext 0 k w0))
     = Some (written (learner (epoch_body ext 0 k w0)) k)"
    by (simp add: restore_def files_rolling_epoch_body)
  have b: "restore (milestone_name k) (files (epoch_body ext 0 k w0))
     = (if 15 \<le> k then Some (written (learner (epoch_body ext 0 k w0)) k)
        else restore (milestone_name k) (files w0))"
    by (simp add: restore_def files_milestone_epoch_body)
  have r: "restore (rolling_name k) (files ?w)
            = (if rank_of c gpu = 0 \<and> 0 < total_epochs c
               then Some (written (learner ?w) (total_epochs c - 1))
               else restore (rolling_name k) fs)"
    by (simp add: restore_def files_rolling_fold upto_nonempty last_upto)
  have m: "restore (milestone_name k) (files ?w)
            = (if rank_of c gpu = 0 \<and> 15 \<le> k \<and> k < total_epochs c
               then Some (written (learner (fold (epoch_body ext 0) [start_epoch .. k]
                                     (initial_worker c gpu l fs))) k)
               else restore (milestone_name k) fs)"
    by (simp add: restore_def files_milestone_run start_epoch_def)
  have w: "ck_epoch (written l' k) = k" "ck_learner (written l' k) = l'"
    "ck_scores (written l' k) = []" "ck_best_ciders (written l' k) = [0, 0]"
    by (simp_all add: written_def)
  from a b r m w show ?thesis
    by (simp only: main_eq sum.inject ex_simps simp_thms)
qed

end
